theory Spec2Isabelle
  imports Complex_Main "HOL-Library.Word"
begin

unbundle bit_operations_syntax

section \<open>Bytes, buffers and failures\<close>

text \<open>
  A notification carries a \<^verbatim>\<open>DataView\<close> over the bytes the meter sent. The view is
  modelled by the list of its bytes. Every accessor of a \<^verbatim>\<open>DataView\<close> throws a
  \<^verbatim>\<open>RangeError\<close> when the bytes it needs are not all inside the view; the other two
  failures of \<^verbatim>\<open>src/index.js\<close> are plain \<^verbatim>\<open>Error\<close> objects with a message.
  \<open>WriteRejected\<close> stands for whatever the transport rejects a write with.
\<close>

type_synonym byte = "8 word"
type_synonym DataView = "byte list"

datatype error = RangeError | Error string | WriteRejected

definition bind :: "error + 'a \<Rightarrow> ('a \<Rightarrow> error + 'b) \<Rightarrow> error + 'b" where
  "bind m f = (case m of Inl e \<Rightarrow> Inl e | Inr x \<Rightarrow> f x)"

definition getUint8 :: "DataView \<Rightarrow> nat \<Rightarrow> error + byte" where
  "getUint8 v i = (if i < length v then Inr (v ! i) else Inl RangeError)"

text \<open>\<^verbatim>\<open>getUint16(i, true)\<close>: two bytes, the low one first.\<close>

definition getUint16 :: "DataView \<Rightarrow> nat \<Rightarrow> error + 16 word" where
  "getUint16 v i =
     (if i + 2 \<le> length v then Inr (word_cat (v ! (i + 1)) (v ! i)) else Inl RangeError)"

text \<open>\<^verbatim>\<open>getInt16(i, true)\<close>: the same two bytes read as two's complement.\<close>

definition getInt16 :: "DataView \<Rightarrow> nat \<Rightarrow> error + int" where
  "getInt16 v i =
     (if i + 2 \<le> length v then Inr (sint (word_cat (v ! (i + 1)) (v ! i) :: 16 word))
      else Inl RangeError)"

section \<open>Flags\<close>

record flag =
  "value" :: byte
  name :: string

definition TIME_OFFSET_PRESENT :: flag where
  "TIME_OFFSET_PRESENT = \<lparr>value = 0x01, name = ''Time offset present''\<rparr>"

definition GLUCOSE_PRESENT :: flag where
  "GLUCOSE_PRESENT =
     \<lparr>value = 0x02, name = ''Glucose concentration, type and sample location present''\<rparr>"

definition IS_MMOL :: flag where
  "IS_MMOL = \<lparr>value = 0x04, name = ''Glucose concentration units''\<rparr>"

definition STATUS_PRESENT :: flag where
  "STATUS_PRESENT = \<lparr>value = 0x08, name = ''Sensor status annunciation present''\<rparr>"

definition CONTEXT_INFO :: flag where
  "CONTEXT_INFO = \<lparr>value = 0x10, name = ''Context information follows''\<rparr>"

definition CARBS :: flag where
  "CARBS = \<lparr>value = 0x01, name = ''Carbohydrate ID and Carbohydrate present''\<rparr>"

definition MEAL :: flag where
  "MEAL = \<lparr>value = 0x02, name = ''Meal present''\<rparr>"

definition EXTENDED :: flag where
  "EXTENDED = \<lparr>value = 0x80, name = ''Extended flags present''\<rparr>"

definition hasFlag :: "flag \<Rightarrow> byte \<Rightarrow> bool" where
  "hasFlag f v = (if value f AND v \<noteq> 0 then True else False)"

section \<open>The SFLOAT decoder\<close>

text \<open>
  \<^verbatim>\<open>getSFLOAT\<close> returns a JavaScript number. Three of its results are the special
  values; every other result is the double-precision product
  \<^verbatim>\<open>mantissa * (10 ** exponent)\<close> of two integers, which the model returns as
  \<open>Finite mantissa exponent\<close>, keeping both operands of that product.
  \<open>exact\<close> is the real number the product stands for; the double equals it whenever
  the exponent is not negative, since then both the power of ten (at most \<open>10 ^ 12\<close>)
  and the product (below \<open>2 ^ 53\<close>) are integers a double holds exactly.
\<close>

datatype number = NaN | POSITIVE_INFINITY | NEGATIVE_INFINITY | Finite int int

fun exact :: "number \<Rightarrow> real option" where
  "exact (Finite m e) =
     Some (if 0 \<le> e then of_int m * 10 ^ nat e else of_int m / 10 ^ nat (- e))"
| "exact _ = None"

definition getSFLOAT :: "16 word \<Rightarrow> string \<Rightarrow> error + number" where
  "getSFLOAT v units =
     (if v = 0x07FF then Inr NaN
      else if v = 0x0800 then Inr NaN
      else if v = 0x07FE then Inr POSITIVE_INFINITY
      else if v = 0x0802 then Inr NEGATIVE_INFINITY
      else if v = 0x0801 then Inr NaN
      else
        let exponent = uint (drop_bit 12 v);
            mantissa = uint (v AND 0x0FFF);
            exponent = (if exponent \<ge> 0x0008 then - ((0x000F + 1) - exponent) else exponent)
        in bind (if units = ''mg/dL'' then Inr (exponent + 5)
                 else if units = ''mmol/L'' then Inr (exponent + 3)
                 else Inl (Error ''Illegal units for glucose value''))
             (\<lambda>exponent.
                let mantissa = (if mantissa \<ge> 0x0800 then - ((0x0FFF + 1) - mantissa)
                                else mantissa)
                in Inr (Finite mantissa exponent)))"

text \<open>
  The reference decoder, written from the specification's words: the reserved patterns
  first, whatever the unit; otherwise the top four bits and the low twelve bits as
  two's complement numbers, and the unit's bias added to the exponent.
\<close>

definition reserved :: "nat \<Rightarrow> number option" where
  "reserved n =
     (if n = 0x07FF \<or> n = 0x0800 \<or> n = 0x0801 then Some NaN
      else if n = 0x07FE then Some POSITIVE_INFINITY
      else if n = 0x0802 then Some NEGATIVE_INFINITY
      else None)"

definition twos_complement :: "nat \<Rightarrow> nat \<Rightarrow> int" where
  "twos_complement bits n = (if n \<ge> 2 ^ (bits - 1) then int n - 2 ^ bits else int n)"

definition unit_bias :: "string \<Rightarrow> int" where
  "unit_bias units = (if units = ''mg/dL'' then 5 else 3)"

definition sfloat_reference :: "nat \<Rightarrow> string \<Rightarrow> number" where
  "sfloat_reference n units =
     (case reserved n of
        Some s \<Rightarrow> s
      | None \<Rightarrow> Finite (twos_complement 12 (n mod 4096))
                       (twos_complement 4 (n div 4096) + unit_bias units))"

section \<open>Records of the session\<close>

text \<open>
  The objects the parsers build. A property the source leaves unset is \<open>None\<close>.
  \<^verbatim>\<open>sundial.buildTimestamp\<close> belongs to another package: the parser takes it as a
  parameter and \<open>'ts\<close> is whatever it returns.
\<close>

record dateTime =
  year :: "16 word"
  month :: byte
  day :: byte
  hours :: byte
  minutes :: byte
  seconds :: byte

record 'ts payload =
  internalTime :: 'ts
  timeOffset :: int

record header =
  flags :: byte
  seqNum :: "16 word"

record 'ts measurement = header +
  payload :: "'ts payload option"
  timestamp :: 'ts
  units :: "string option"
  "value" :: "number option"
  type :: "byte option"
  location :: "byte option"
  status :: "16 word option"
  hasContext :: bool

record contextRecord = header +
  extended :: "byte option"
  carbID :: "byte option"
  carbUnits :: "16 word option"
  meal :: "byte option"

text \<open>
  The session object \<^verbatim>\<open>self\<close>: the two record sequences, and \<open>racp\<close>, the values
  written so far to the record access control point.
\<close>

record 'ts session =
  records :: "'ts measurement list"
  contextRecords :: "contextRecord list"
  racp :: "byte list list"

section \<open>The context record parser\<close>

definition parseMeasurementContext :: "DataView \<Rightarrow> error + contextRecord" where
  "parseMeasurementContext result =
     bind (getUint8 result 0) (\<lambda>flags.
     bind (getUint16 result 1) (\<lambda>seqNum.
     let offset = 3 in
     bind (if hasFlag EXTENDED flags
           then bind (getUint8 result offset) (\<lambda>e. Inr (Some e, offset + 1))
           else Inr (None, offset)) (\<lambda>(extended, offset).
     bind (if hasFlag CARBS flags
           then bind (getUint8 result offset) (\<lambda>i.
                bind (getUint16 result (offset + 1)) (\<lambda>u.
                Inr (Some i, Some u, offset + 2)))
           else Inr (None, None, offset)) (\<lambda>(carbID, carbUnits, offset).
     bind (if hasFlag MEAL flags
           then bind (getUint8 result offset) (\<lambda>m. Inr (Some m, offset + 1))
           else Inr (None, offset)) (\<lambda>(meal, offset).
     Inr \<lparr>flags = flags, seqNum = seqNum, extended = extended, carbID = carbID,
          carbUnits = carbUnits, meal = meal\<rparr>)))))"

section \<open>The measurement record parser\<close>

text \<open>
  \<^verbatim>\<open>b && 0x0F\<close> is JavaScript's logical conjunction: the left operand when it is
  falsy (the number 0), the right operand otherwise. The parser's calls of \<^verbatim>\<open>debug\<close>
  print and change nothing; they are left out.
\<close>

definition logical_and :: "byte \<Rightarrow> byte \<Rightarrow> byte" where
  "logical_and a b = (if a = 0 then a else b)"

definition parseGlucoseMeasurement ::
    "(dateTime \<Rightarrow> 'ts) \<Rightarrow> DataView \<Rightarrow> error + 'ts measurement" where
  "parseGlucoseMeasurement buildTimestamp result =
     bind (getUint8 result 0) (\<lambda>flags.
     bind (getUint16 result 1) (\<lambda>seqNum.
     let offset = 0 in
     bind (getUint16 result 3) (\<lambda>year.
     bind (getUint8 result 5) (\<lambda>month.
     bind (getUint8 result 6) (\<lambda>day.
     bind (getUint8 result 7) (\<lambda>hours.
     bind (getUint8 result 8) (\<lambda>minutes.
     bind (getUint8 result 9) (\<lambda>seconds.
     let dateTime = \<lparr>year = year, month = (if month = 13 then 1 else month), day = day,
                      hours = hours, minutes = minutes, seconds = seconds\<rparr> in
     bind (if hasFlag TIME_OFFSET_PRESENT flags
           then bind (getInt16 result 10) (\<lambda>t.
                Inr (Some \<lparr>internalTime = buildTimestamp dateTime, timeOffset = t\<rparr>,
                     offset + 2))
           else Inr (None, offset)) (\<lambda>(payload, offset).
     let timestamp = buildTimestamp dateTime in
     bind (if hasFlag GLUCOSE_PRESENT flags
           then let units = (if hasFlag IS_MMOL flags then ''mmol/L'' else ''mg/dL'') in
                bind (getUint16 result (offset + 10)) (\<lambda>raw.
                bind (getSFLOAT raw units) (\<lambda>v.
                bind (getUint8 result (offset + 12)) (\<lambda>b.
                bind (getUint8 result (offset + 12)) (\<lambda>b'.
                bind (if hasFlag STATUS_PRESENT flags
                      then bind (getUint16 result (offset + 13)) (\<lambda>s. Inr (Some s))
                      else Inr None) (\<lambda>status.
                Inr (Some units, Some v, Some (drop_bit 4 b),
                     Some (logical_and b' 0x0F), status))))))
           else Inr (None, None, None, None, None))
       (\<lambda>(units, v, type, location, status).
     Inr \<lparr>flags = flags, seqNum = seqNum, payload = payload, timestamp = timestamp,
          units = units, value = v, type = type, location = location, status = status,
          hasContext = hasFlag CONTEXT_INFO flags\<rparr>))))))))))"

text \<open>
  The length the flags of a measurement demand, from the specification: ten bytes of
  flags, sequence number and base time, two more for a time offset, three more for the
  glucose value with its type and location byte, and two more for a status that follows
  the glucose value.
\<close>

definition required_length :: "byte \<Rightarrow> nat" where
  "required_length f =
     10 + (if hasFlag TIME_OFFSET_PRESENT f then 2 else 0)
        + (if hasFlag GLUCOSE_PRESENT f
           then 3 + (if hasFlag STATUS_PRESENT f then 2 else 0) else 0)"

section \<open>Notification handlers\<close>

definition handleContextNotifications :: "DataView \<Rightarrow> 'ts session \<Rightarrow> error + 'ts session" where
  "handleContextNotifications v self =
     bind (parseMeasurementContext v) (\<lambda>parsed.
     Inr (self\<lparr>contextRecords := contextRecords self @ [parsed]\<rparr>))"

text \<open>
  \<^verbatim>\<open>self.records[self.records.length-1]?.seqNum\<close> is \<^verbatim>\<open>undefined\<close> for an empty
  sequence, which no sequence number equals.
\<close>

definition handleNotifications ::
    "(dateTime \<Rightarrow> 'ts) \<Rightarrow> DataView \<Rightarrow> 'ts session \<Rightarrow> error + 'ts session" where
  "handleNotifications buildTimestamp v self =
     bind (parseGlucoseMeasurement buildTimestamp v) (\<lambda>parsed.
     let previous = (if records self = [] then None
                     else Some (seqNum (last (records self))))
     in if Some (seqNum parsed) \<noteq> previous
        then Inr (self\<lparr>records := records self @ [parsed]\<rparr>)
        else Inr self)"

text \<open>
  A stream of measurement notifications: one call of the handler for each, in order of
  arrival. A handler that throws leaves the session as it was and the next notification
  is handled all the same.
\<close>

fun notifications :: "(dateTime \<Rightarrow> 'ts) \<Rightarrow> DataView list \<Rightarrow> 'ts session \<Rightarrow> 'ts session" where
  "notifications buildTimestamp [] self = self"
| "notifications buildTimestamp (v # vs) self =
     notifications buildTimestamp vs
       (case handleNotifications buildTimestamp v self of Inl e \<Rightarrow> self | Inr self' \<Rightarrow> self')"

text \<open>The records a stream of notifications parses to, the failed ones left out.\<close>

fun parsed_records :: "(dateTime \<Rightarrow> 'ts) \<Rightarrow> DataView list \<Rightarrow> 'ts measurement list" where
  "parsed_records buildTimestamp [] = []"
| "parsed_records buildTimestamp (v # vs) =
     (case parseGlucoseMeasurement buildTimestamp v of
        Inl e \<Rightarrow> parsed_records buildTimestamp vs
      | Inr r \<Rightarrow> r # parsed_records buildTimestamp vs)"

section \<open>The record access control point\<close>

text \<open>
  The events \<^verbatim>\<open>handleRACP\<close> dispatches on the session, each a \<^verbatim>\<open>CustomEvent\<close> with
  its type and its \<^verbatim>\<open>detail\<close>: the operand, the two sequences, or an empty array.
\<close>

datatype 'ts detail =
    Operand "16 word"
  | Sequences "'ts measurement list" "contextRecord list"
  | EmptyArray

datatype 'ts event = CustomEvent string "'ts detail"

record racpObject =
  opCode :: byte
  operator :: byte
  operand :: "16 word"

definition handleRACP :: "DataView \<Rightarrow> 'ts session \<Rightarrow> error + 'ts event list" where
  "handleRACP v self =
     bind (getUint8 v 0) (\<lambda>opc.
     bind (getUint8 v 1) (\<lambda>opr.
     bind (getUint16 v 2) (\<lambda>opd.
     let racpObject = \<lparr>opCode = opc, operator = opr, operand = opd\<rparr> in
     if opCode racpObject = 0x05
     then Inr [CustomEvent ''numberOfRecords'' (Operand (operand racpObject))]
     else if opCode racpObject = 0x06
     then (if operand racpObject = 0x0101
           then Inr [CustomEvent ''data'' (Sequences (records self) (contextRecords self))]
           else if operand racpObject = 0x0601
           then Inr [CustomEvent ''data'' EmptyArray]
           else Inr [])
     else Inl (Error ''Unrecognized op code''))))"

text \<open>
  \<^verbatim>\<open>sendCommand\<close> writes to the characteristic, and the write is the transport's to
  accept or to reject: \<open>accepted\<close> says which. The result is the session afterwards
  and the error the returned promise rejects with, if any.
\<close>

definition sendCommand ::
    "bool \<Rightarrow> byte list \<Rightarrow> 'ts session \<Rightarrow> 'ts session \<times> error option" where
  "sendCommand accepted cmd self =
     (if accepted then (self\<lparr>racp := racp self @ [cmd]\<rparr>, None)
      else (self, Some WriteRejected))"

text \<open>\<^verbatim>\<open>setUint16(3, seqNum, true)\<close>: the number modulo \<open>2 ^ 16\<close>, low byte first.\<close>

definition setUint16 :: "int \<Rightarrow> byte list" where
  "setUint16 n = [word_of_int n, word_of_int (n div 256)]"

definition getNumberOfRecords ::
    "bool \<Rightarrow> 'ts session \<Rightarrow> 'ts session \<times> error option" where
  "getNumberOfRecords accepted self = sendCommand accepted [0x04, 0x01] self"

definition getDeltaNumberOfRecords ::
    "bool \<Rightarrow> int \<Rightarrow> 'ts session \<Rightarrow> 'ts session \<times> error option" where
  "getDeltaNumberOfRecords accepted n self =
     (let buffer = [0x04, 0x03, 0x01] @ setUint16 n in sendCommand accepted buffer self)"

definition getAllRecords ::
    "bool \<Rightarrow> 'ts session \<Rightarrow> 'ts session \<times> error option" where
  "getAllRecords accepted self =
     (let self = self\<lparr>records := []\<rparr>;
          self = self\<lparr>contextRecords := []\<rparr>
      in sendCommand accepted [0x01, 0x01] self)"

definition getDeltaRecords ::
    "bool \<Rightarrow> int \<Rightarrow> 'ts session \<Rightarrow> 'ts session \<times> error option" where
  "getDeltaRecords accepted n self =
     (let buffer = [0x01, 0x03, 0x01] @ setUint16 n;
          self = self\<lparr>records := []\<rparr>;
          self = self\<lparr>contextRecords := []\<rparr>
      in sendCommand accepted buffer self)"

section \<open>A new session and a plain reading\<close>

text \<open>The constructor: both sequences empty, nothing written yet.\<close>

definition bluetoothLE :: "'ts session" where
  "bluetoothLE = \<lparr>records = [], contextRecords = [], racp = []\<rparr>"

text \<open>
  A measurement notification of ten bytes: no flag set, sequence number \<open>n\<close>, base
  time 2019-01-01 00:00:00.
\<close>

definition reading :: "byte \<Rightarrow> DataView" where
  "reading n = [0x00, n, 0x00, 0xE3, 0x07, 1, 1, 0, 0, 0]"

section \<open>Helper facts\<close>

lemmas dataview_defs = bind_def getUint8_def getUint16_def getInt16_def

lemmas flag_defs = hasFlag_def TIME_OFFSET_PRESENT_def GLUCOSE_PRESENT_def IS_MMOL_def
  STATUS_PRESENT_def CONTEXT_INFO_def EXTENDED_def CARBS_def MEAL_def

lemma uint_drop_bit_12: "uint (drop_bit 12 (v :: 16 word)) = int (unat v div 4096)"
proof -
  have "unat (drop_bit 12 v) = drop_bit 12 (unat v)" by (rule unat_drop_bit_eq)
  also have "\<dots> = unat v div 2 ^ 12" by (rule drop_bit_eq_div)
  finally have "unat (drop_bit 12 v) = unat v div 4096" by simp
  then show ?thesis by (simp only: uint_nat)
qed

lemma uint_and_0FFF: "uint ((v :: 16 word) AND 0x0FFF) = int (unat v mod 4096)"
proof -
  have "v AND 0x0FFF = take_bit 12 v"
    using take_bit_eq_mask [of 12 v] by (simp add: mask_eq_exp_minus_1)
  then have "unat (v AND 0x0FFF) = take_bit 12 (unat v)" by (simp add: unsigned_take_bit_eq)
  also have "\<dots> = unat v mod 2 ^ 12" by (rule take_bit_eq_mod)
  finally have "unat (v AND 0x0FFF) = unat v mod 4096" by simp
  then show ?thesis by (simp only: uint_nat)
qed

lemma word16_eq_unat: "((v :: 16 word) = k) = (unat v = unat k)"
  by (simp add: word_unat_eq_iff)

lemma reserved_unat:
  "reserved (unat (v :: 16 word)) =
     (if v = 0x07FF then Some NaN
      else if v = 0x0800 then Some NaN
      else if v = 0x07FE then Some POSITIVE_INFINITY
      else if v = 0x0802 then Some NEGATIVE_INFINITY
      else if v = 0x0801 then Some NaN else None)"
proof -
  have "(v = 0x07FF) = (unat v = 0x07FF)" "(v = 0x0800) = (unat v = 0x0800)"
    "(v = 0x07FE) = (unat v = 0x07FE)" "(v = 0x0802) = (unat v = 0x0802)"
    "(v = 0x0801) = (unat v = 0x0801)"
    by (simp_all add: word16_eq_unat)
  then show ?thesis unfolding reserved_def by simp
qed

lemma getSFLOAT_reference:
  "u = ''mg/dL'' \<or> u = ''mmol/L'' \<Longrightarrow> getSFLOAT v u = Inr (sfloat_reference (unat v) u)"
  unfolding getSFLOAT_def sfloat_reference_def reserved_unat
  by (auto simp: Let_def bind_def uint_drop_bit_12 uint_and_0FFF twos_complement_def
        unit_bias_def)

lemma getSFLOAT_reserved:
  "getSFLOAT 0x07FF u = Inr NaN" "getSFLOAT 0x0800 u = Inr NaN" "getSFLOAT 0x0801 u = Inr NaN"
  "getSFLOAT 0x07FE u = Inr POSITIVE_INFINITY" "getSFLOAT 0x0802 u = Inr NEGATIVE_INFINITY"
  by (simp_all add: getSFLOAT_def)

lemma getSFLOAT_illegal_units:
  assumes "u \<noteq> ''mg/dL''" "u \<noteq> ''mmol/L''"
    and "v \<noteq> 0x07FE" "v \<noteq> 0x07FF" "v \<noteq> 0x0800" "v \<noteq> 0x0801" "v \<noteq> 0x0802"
  shows "getSFLOAT v u = Inl (Error ''Illegal units for glucose value'')"
  using assms by (simp add: getSFLOAT_def bind_def Let_def)

lemma getSFLOAT_total:
  "u = ''mg/dL'' \<or> u = ''mmol/L'' \<Longrightarrow> \<exists>n. getSFLOAT v u = Inr n"
  by (auto simp: getSFLOAT_def bind_def Let_def)

lemma getSFLOAT_units: "\<exists>n. getSFLOAT v (if c then ''mmol/L'' else ''mg/dL'') = Inr n"
  by (rule getSFLOAT_total) simp

lemma parse_one_byte_short:
  "length (f # rest) + 1 = required_length f \<Longrightarrow>
   parseGlucoseMeasurement bt (f # rest) = Inl RangeError"
  apply (cases "hasFlag TIME_OFFSET_PRESENT f"; cases "hasFlag GLUCOSE_PRESENT f";
         cases "hasFlag STATUS_PRESENT f")
  apply (insert getSFLOAT_units [of "word_cat (rest ! 10) (rest ! 9)" "hasFlag IS_MMOL f"]
         getSFLOAT_units [of "word_cat (rest ! 12) (rest ! 11)" "hasFlag IS_MMOL f"])
  apply (auto simp: parseGlucoseMeasurement_def dataview_defs required_length_def Let_def)
  done

lemma parse_exact_length:
  "length (f # rest) = required_length f \<Longrightarrow>
   \<exists>r. parseGlucoseMeasurement bt (f # rest) = Inr r"
  apply (cases "hasFlag TIME_OFFSET_PRESENT f"; cases "hasFlag GLUCOSE_PRESENT f";
         cases "hasFlag STATUS_PRESENT f")
  apply (insert getSFLOAT_units [of "word_cat (rest ! 10) (rest ! 9)" "hasFlag IS_MMOL f"]
         getSFLOAT_units [of "word_cat (rest ! 12) (rest ! 11)" "hasFlag IS_MMOL f"])
  apply (auto simp: parseGlucoseMeasurement_def dataview_defs required_length_def Let_def)
  done

section \<open>The SFLOAT decoder agrees with its reference\<close>

text \<open>
  Claim C1. For every 16-bit value and either unit, \<open>getSFLOAT\<close> returns what the
  reference decoder returns: the five reserved patterns give their special value,
  before any decoding and whatever the unit (here \<open>u'\<close> is any string at all); every
  other value gives the product of the low twelve bits, as a 12-bit two's complement
  mantissa, and ten to the top four bits, as a 4-bit two's complement exponent, plus 5
  for mg/dL and 3 for mmol/L. So \<open>0x000A\<close> in mg/dL is \<open>10 * 10 ^ 5 = 1000000\<close> and
  \<open>0xF0C8\<close> in mmol/L is \<open>200 * 10 ^ 2 = 20000\<close>.
\<close>

theorem getSFLOAT_equals_reference:
  assumes "u = ''mg/dL'' \<or> u = ''mmol/L''"
  shows "getSFLOAT v u = Inr (sfloat_reference (unat v) u)
       \<and> getSFLOAT 0x07FF u' = Inr NaN \<and> getSFLOAT 0x0800 u' = Inr NaN
       \<and> getSFLOAT 0x0801 u' = Inr NaN
       \<and> getSFLOAT 0x07FE u' = Inr POSITIVE_INFINITY
       \<and> getSFLOAT 0x0802 u' = Inr NEGATIVE_INFINITY
       \<and> getSFLOAT 0x000A ''mg/dL'' = Inr (Finite 10 5)
       \<and> exact (Finite 10 5) = Some 1000000
       \<and> getSFLOAT 0xF0C8 ''mmol/L'' = Inr (Finite 200 2)
       \<and> exact (Finite 200 2) = Some 20000"
proof -
  have "getSFLOAT 0x000A ''mg/dL'' = Inr (Finite 10 5)"
    by (simp add: getSFLOAT_def bind_def)
  moreover have "getSFLOAT 0xF0C8 ''mmol/L'' = Inr (Finite 200 2)"
    by (simp add: getSFLOAT_def bind_def)
  moreover have "exact (Finite 10 5) = Some 1000000" "exact (Finite 200 2) = Some 20000"
    by simp_all
  ultimately show ?thesis
    using getSFLOAT_reference [OF assms, of v] getSFLOAT_reserved [of u'] by simp
qed

theorem getSFLOAT_equals_reference_witness:
  "getSFLOAT 0x8FFF ''mmol/L'' = Inr (Finite (- 1) (- 5))
   \<and> getSFLOAT 0x07FF ''kg/L'' = Inr NaN
   \<and> getSFLOAT 0x0802 ''kg/L'' = Inr NEGATIVE_INFINITY"
  using getSFLOAT_equals_reference [of "''mmol/L''" "0x8FFF" "''kg/L''"]
  by (simp add: sfloat_reference_def reserved_def twos_complement_def unit_bias_def)

section \<open>Units the decoder does not know\<close>

text \<open>
  With the unit \<open>kg/L\<close>, which is neither mg/dL nor mmol/L, the reserved pattern
  \<open>0x07FF\<close> still decodes to NaN: the decoder does not fail for every value.
\<close>

theorem getSFLOAT_reserved_ignores_units_counterexample:
  "getSFLOAT 0x07FF ''kg/L'' = Inr NaN"
  by (simp add: getSFLOAT_def)

text \<open>
  Claim C8, as the code has it. With a unit other than mg/dL and mmol/L the decoder
  fails with its illegal-units error for every value except the five reserved
  patterns; for those five the special value is returned and the unit is never looked
  at.
\<close>

theorem getSFLOAT_illegal_units_unless_reserved:
  assumes "u \<noteq> ''mg/dL''" and "u \<noteq> ''mmol/L''"
  shows "(v \<notin> {0x07FE, 0x07FF, 0x0800, 0x0801, 0x0802} \<longrightarrow>
            getSFLOAT v u = Inl (Error ''Illegal units for glucose value''))
       \<and> (v \<in> {0x07FE, 0x07FF, 0x0800, 0x0801, 0x0802} \<longrightarrow>
            getSFLOAT v u \<in> {Inr NaN, Inr POSITIVE_INFINITY, Inr NEGATIVE_INFINITY})"
proof (intro conjI impI)
  assume "v \<notin> {0x07FE, 0x07FF, 0x0800, 0x0801, 0x0802}"
  then show "getSFLOAT v u = Inl (Error ''Illegal units for glucose value'')"
    using assms by (intro getSFLOAT_illegal_units) simp_all
next
  assume "v \<in> {0x07FE, 0x07FF, 0x0800, 0x0801, 0x0802}"
  then show "getSFLOAT v u \<in> {Inr NaN, Inr POSITIVE_INFINITY, Inr NEGATIVE_INFINITY}"
    using getSFLOAT_reserved [of u] by auto
qed

theorem getSFLOAT_illegal_units_unless_reserved_witness:
  "getSFLOAT 0x000A ''kg/L'' = Inl (Error ''Illegal units for glucose value'')
   \<and> getSFLOAT 0x07FE ''kg/L'' \<in> {Inr NaN, Inr POSITIVE_INFINITY, Inr NEGATIVE_INFINITY}"
  using getSFLOAT_illegal_units_unless_reserved [of "''kg/L''" "0x000A"]
    getSFLOAT_illegal_units_unless_reserved [of "''kg/L''" "0x07FE"]
  by simp

section \<open>Measurement buffers and the length their flags demand\<close>

text \<open>
  Claim C9. Whatever the flags byte \<open>f\<close>, a measurement buffer one byte shorter than
  the flags demand makes the parser fail (the \<open>RangeError\<close> of the read that falls
  outside the buffer), the notification handler fails with it and the session keeps
  the records it had; a buffer of exactly the demanded length parses to a record.
\<close>

theorem parseGlucoseMeasurement_length:
  "(length (f # rest) + 1 = required_length f \<longrightarrow>
      parseGlucoseMeasurement bt (f # rest) = Inl RangeError
      \<and> handleNotifications bt (f # rest) self = Inl RangeError
      \<and> notifications bt [f # rest] self = self)
   \<and> (length (f # rest) = required_length f \<longrightarrow>
      (\<exists>r. parseGlucoseMeasurement bt (f # rest) = Inr r))"
proof (intro conjI impI)
  assume short: "length (f # rest) + 1 = required_length f"
  show p: "parseGlucoseMeasurement bt (f # rest) = Inl RangeError"
    by (rule parse_one_byte_short [OF short])
  show h: "handleNotifications bt (f # rest) self = Inl RangeError"
    by (simp add: handleNotifications_def p bind_def)
  show "notifications bt [f # rest] self = self"
    by (simp add: h)
next
  assume "length (f # rest) = required_length f"
  then show "\<exists>r. parseGlucoseMeasurement bt (f # rest) = Inr r"
    by (rule parse_exact_length)
qed

theorem parseGlucoseMeasurement_length_witness:
  "parseGlucoseMeasurement (\<lambda>d. d) [0x0B, 1, 0, 0xE3, 0x07, 12, 2, 3, 4, 5, 0xFF, 0xFF,
       0x0A, 0x00, 0x20, 1] = Inl RangeError
   \<and> (\<exists>r. parseGlucoseMeasurement (\<lambda>d. d) [0x0B, 1, 0, 0xE3, 0x07, 12, 2, 3, 4, 5, 0xFF,
       0xFF, 0x0A, 0x00, 0x20, 1, 2] = Inr r)"
  using parseGlucoseMeasurement_length [of "0x0B"
      "[1, 0, 0xE3, 0x07, 12, 2, 3, 4, 5, 0xFF, 0xFF, 0x0A, 0x00, 0x20, 1]" "\<lambda>d. d"]
    parseGlucoseMeasurement_length [of "0x0B"
      "[1, 0, 0xE3, 0x07, 12, 2, 3, 4, 5, 0xFF, 0xFF, 0x0A, 0x00, 0x20, 1, 2]" "\<lambda>d. d"]
  by (simp add: required_length_def flag_defs)

section \<open>Helper facts on the handlers\<close>

lemma remdups_adj_snoc:
  "remdups_adj (xs @ [x]) =
     (if xs \<noteq> [] \<and> last xs = x then remdups_adj xs else remdups_adj xs @ [x])"
proof (cases xs rule: rev_cases)
  case Nil
  then show ?thesis by simp
next
  case (snoc ys y)
  then show ?thesis by (simp add: remdups_adj_append_two)
qed

lemma notifications_snoc:
  "notifications bt (vs @ [v]) self =
     (case handleNotifications bt v (notifications bt vs self) of
        Inl e \<Rightarrow> notifications bt vs self | Inr s \<Rightarrow> s)"
  by (induction vs arbitrary: self) (simp_all split: sum.splits)

lemma parsed_records_snoc:
  "parsed_records bt (vs @ [v]) =
     parsed_records bt vs @
       (case parseGlucoseMeasurement bt v of Inl e \<Rightarrow> [] | Inr r \<Rightarrow> [r])"
  by (induction vs) (simp_all split: sum.splits)

lemma handleNotifications_step:
  "handleNotifications bt v self =
     (case parseGlucoseMeasurement bt v of
        Inl e \<Rightarrow> Inl e
      | Inr r \<Rightarrow>
          Inr (if records self \<noteq> [] \<and> seqNum (last (records self)) = seqNum r then self
               else self\<lparr>records := records self @ [r]\<rparr>))"
  by (simp add: handleNotifications_def bind_def Let_def split: sum.splits)

lemma notifications_remdups_adj:
  "records self = [] \<Longrightarrow>
   map seqNum (records (notifications bt vs self)) =
     remdups_adj (map seqNum (parsed_records bt vs))"
proof (induction vs rule: rev_induct)
  case Nil
  then show ?case by simp
next
  case (snoc v vs)
  let ?s = "notifications bt vs self"
  have IH: "map seqNum (records ?s) = remdups_adj (map seqNum (parsed_records bt vs))"
    using snoc by simp
  show ?case
  proof (cases "parseGlucoseMeasurement bt v")
    case (Inl e)
    then show ?thesis
      by (simp add: notifications_snoc parsed_records_snoc handleNotifications_step IH)
  next
    case (Inr r)
    let ?X = "records ?s" and ?P = "map seqNum (parsed_records bt vs)"
    have step: "map seqNum (records (notifications bt (vs @ [v]) self)) =
        (if ?X \<noteq> [] \<and> seqNum (last ?X) = seqNum r then map seqNum ?X
         else map seqNum ?X @ [seqNum r])"
      using Inr by (simp add: notifications_snoc handleNotifications_step)
    have rhs: "remdups_adj (map seqNum (parsed_records bt (vs @ [v]))) =
        (if ?P \<noteq> [] \<and> last ?P = seqNum r then remdups_adj ?P
         else remdups_adj ?P @ [seqNum r])"
      using Inr by (simp only: parsed_records_snoc sum.case map_append list.map
          remdups_adj_snoc)
    have nil: "(?X = []) = (?P = [])"
      by (metis IH map_is_Nil_conv remdups_adj_Nil_iff)
    have lst: "?X \<noteq> [] \<Longrightarrow> seqNum (last ?X) = last ?P"
      by (metis IH last_map last_remdups_adj)
    show ?thesis
    proof (cases "?X = []")
      case True
      then show ?thesis using nil step rhs by simp
    next
      case False
      then show ?thesis using nil lst step rhs IH by simp
    qed
  qed
qed

lemma notifications_readings_112333:
  "map seqNum (records (notifications bt (map reading [1, 1, 2, 3, 3, 3]) bluetoothLE))
     = [1, 2, 3]"
  by (simp add: handleNotifications_def parseGlucoseMeasurement_def dataview_defs
        reading_def flag_defs word_cat_eq bluetoothLE_def)

lemma notifications_readings_121:
  "map seqNum (records (notifications bt (map reading [1, 2, 1]) bluetoothLE)) = [1, 2, 1]"
  by (simp add: handleNotifications_def parseGlucoseMeasurement_def dataview_defs
        reading_def flag_defs word_cat_eq bluetoothLE_def)

lemma parseGlucoseMeasurement_timestamp:
  "parseGlucoseMeasurement bt buf = Inr r \<Longrightarrow>
   timestamp r = bt \<lparr>year = word_cat (buf ! 4) (buf ! 3),
                      month = (if buf ! 5 = 13 then 1 else buf ! 5), day = buf ! 6,
                      hours = buf ! 7, minutes = buf ! 8, seconds = buf ! 9\<rparr>
   \<and> payload r =
       (if hasFlag TIME_OFFSET_PRESENT (buf ! 0)
        then Some \<lparr>internalTime = timestamp r,
                   timeOffset = sint (word_cat (buf ! 11) (buf ! 10) :: 16 word)\<rparr>
        else None)"
  unfolding parseGlucoseMeasurement_def dataview_defs Let_def
  by (auto split: if_splits sum.splits prod.splits)

lemma handleRACP_unrecognized_op_code:
  "opc \<noteq> 0x05 \<Longrightarrow> opc \<noteq> 0x06 \<Longrightarrow>
   handleRACP [opc, opr, lo, hi] self = Inl (Error ''Unrecognized op code'')"
  by (simp add: handleRACP_def dataview_defs)

lemma handleRACP_other_operand:
  "word_cat hi lo \<noteq> (0x0101 :: 16 word) \<Longrightarrow> word_cat hi lo \<noteq> (0x0601 :: 16 word) \<Longrightarrow>
   handleRACP [0x06, opr, lo, hi] self = Inr []"
  by (simp add: handleRACP_def dataview_defs)

lemma location_never_a_nibble:
  "parseGlucoseMeasurement bt buf = Inr r \<Longrightarrow> location r \<in> {None, Some 0, Some 0x0F}"
  unfolding parseGlucoseMeasurement_def dataview_defs Let_def logical_and_def
  by (auto split: if_splits sum.splits prod.splits)

lemma sendCommand_keeps_records:
  "records (fst (sendCommand accepted cmd self)) = records self"
  "contextRecords (fst (sendCommand accepted cmd self)) = contextRecords self"
  by (simp_all add: sendCommand_def)

section \<open>Replies of the record access control point\<close>

text \<open>
  Claim C2. A reply of four bytes is the op code, the operator and the operand, low
  byte first. With op code \<open>0x05\<close> the handler dispatches exactly one
  \<^verbatim>\<open>numberOfRecords\<close> event whose detail is the operand; with op code \<open>0x06\<close> and
  operand \<open>0x0101\<close> exactly one \<^verbatim>\<open>data\<close> event whose detail is the session's
  measurement and context sequences as they are; with op code \<open>0x06\<close> and operand
  \<open>0x0601\<close> exactly one \<^verbatim>\<open>data\<close> event whose detail is an empty array.
\<close>

theorem handleRACP_events:
  "(opc = 0x05 \<longrightarrow>
      handleRACP [opc, opr, lo, hi] self =
        Inr [CustomEvent ''numberOfRecords'' (Operand (word_cat hi lo))])
   \<and> (opc = 0x06 \<and> word_cat hi lo = (0x0101 :: 16 word) \<longrightarrow>
      handleRACP [opc, opr, lo, hi] self =
        Inr [CustomEvent ''data'' (Sequences (records self) (contextRecords self))])
   \<and> (opc = 0x06 \<and> word_cat hi lo = (0x0601 :: 16 word) \<longrightarrow>
      handleRACP [opc, opr, lo, hi] self = Inr [CustomEvent ''data'' EmptyArray])"
  by (simp add: handleRACP_def dataview_defs)

theorem handleRACP_events_witness:
  "handleRACP [0x05, 0x00, 42, 0x00] (bluetoothLE :: unit session) =
       Inr [CustomEvent ''numberOfRecords'' (Operand 42)]
   \<and> handleRACP [0x06, 0x00, 0x01, 0x01] (bluetoothLE :: unit session) =
       Inr [CustomEvent ''data'' (Sequences [] [])]
   \<and> handleRACP [0x06, 0x00, 0x01, 0x06] (bluetoothLE :: unit session) =
       Inr [CustomEvent ''data'' EmptyArray]"
  using handleRACP_events [of "0x05" "0x00" 42 "0x00" "bluetoothLE :: unit session"]
    handleRACP_events [of "0x06" "0x00" "0x01" "0x01" "bluetoothLE :: unit session"]
    handleRACP_events [of "0x06" "0x00" "0x01" "0x06" "bluetoothLE :: unit session"]
  by (simp add: word_cat_eq bluetoothLE_def)

text \<open>
  Claim C3. An op code other than \<open>0x05\<close> and \<open>0x06\<close> makes the handler throw
  (\<open>handleRACP_unrecognized_op_code\<close>). Op code \<open>0x06\<close> with an operand that is
  neither \<open>0x0101\<close> nor \<open>0x0601\<close> does not: the reply \<open>06 00 01 02\<close> (operand
  \<open>0x0201\<close>, op code not supported) dispatches no event and throws nothing.
\<close>

theorem handleRACP_operand_0201_ignored:
  "handleRACP [0x06, 0x00, 0x01, 0x02] self = Inr []"
  by (simp add: handleRACP_def dataview_defs word_cat_eq)

section \<open>Appending measurements\<close>

text \<open>
  Claim C4. A measurement notification that parses is appended to the session's
  records unless they are not empty and the last of them has the same sequence
  number; nothing before the last record is looked at. So from a new session the
  stored sequence numbers are those of the parsed notifications with every run of
  equal neighbours reduced to one: notifications numbered 1, 1, 2, 3, 3, 3 leave
  1, 2, 3 and notifications numbered 1, 2, 1 leave 1, 2, 1.
\<close>

theorem handleNotifications_adjacent_only:
  "handleNotifications bt v self =
     (case parseGlucoseMeasurement bt v of
        Inl e \<Rightarrow> Inl e
      | Inr r \<Rightarrow>
          Inr (if records self \<noteq> [] \<and> seqNum (last (records self)) = seqNum r then self
               else self\<lparr>records := records self @ [r]\<rparr>))
   \<and> (records self = [] \<longrightarrow>
        map seqNum (records (notifications bt vs self)) =
          remdups_adj (map seqNum (parsed_records bt vs)))
   \<and> map seqNum (records (notifications bt (map reading [1, 1, 2, 3, 3, 3]) bluetoothLE))
        = [1, 2, 3]
   \<and> map seqNum (records (notifications bt (map reading [1, 2, 1]) bluetoothLE))
        = [1, 2, 1]"
  using handleNotifications_step [of bt v self] notifications_remdups_adj [of self bt vs]
    notifications_readings_112333 [of bt] notifications_readings_121 [of bt]
  by (intro conjI impI)

theorem handleNotifications_adjacent_only_witness:
  "map seqNum (records (notifications (\<lambda>d. d) [reading 7, reading 7, reading 8, reading 7]
      bluetoothLE)) = [7, 8, 7]
   \<and> map seqNum (parsed_records (\<lambda>d. d) [reading 7, reading 7, reading 8, reading 7])
      = [7, 7, 8, 7]"
  using handleNotifications_adjacent_only [of "\<lambda>d. d" "reading 7" bluetoothLE
      "[reading 7, reading 7, reading 8, reading 7]"]
  by (simp add: handleNotifications_def parseGlucoseMeasurement_def dataview_defs
        reading_def flag_defs word_cat_eq bluetoothLE_def Let_def)

section \<open>The timestamp of a measurement\<close>

lemma parse_long_enough:
  "required_length f \<le> length (f # rest) \<Longrightarrow>
   \<exists>r. parseGlucoseMeasurement bt (f # rest) = Inr r"
  apply (cases "hasFlag TIME_OFFSET_PRESENT f"; cases "hasFlag GLUCOSE_PRESENT f";
         cases "hasFlag STATUS_PRESENT f")
  apply (insert getSFLOAT_units [of "word_cat (rest ! 10) (rest ! 9)" "hasFlag IS_MMOL f"]
         getSFLOAT_units [of "word_cat (rest ! 12) (rest ! 11)" "hasFlag IS_MMOL f"])
  apply (auto simp: parseGlucoseMeasurement_def dataview_defs required_length_def Let_def)
  done

lemma required_length_ge_10: "10 \<le> required_length f"
  by (simp add: required_length_def)

lemma parse_total:
  assumes "required_length (buf ! 0) \<le> length buf"
  shows "\<exists>r. parseGlucoseMeasurement bt buf = Inr r"
proof (cases buf)
  case Nil
  then show ?thesis using assms required_length_ge_10 [of "buf ! 0"] by simp
next
  case (Cons f rest)
  then show ?thesis using assms parse_long_enough [of f rest bt] by simp
qed

lemma parse_too_short:
  "length buf < required_length (buf ! 0) \<Longrightarrow>
   \<exists>e. parseGlucoseMeasurement bt buf = Inl e"
  apply (cases "hasFlag TIME_OFFSET_PRESENT (buf ! 0)";
         cases "hasFlag GLUCOSE_PRESENT (buf ! 0)"; cases "hasFlag STATUS_PRESENT (buf ! 0)")
  apply (auto simp: parseGlucoseMeasurement_def dataview_defs required_length_def Let_def
           split: sum.splits)
  done

text \<open>
  Claim C5. Every measurement buffer that is as long as its flags demand parses to a
  record, and the timestamp of that record is built from the base date and time in
  bytes 3 to 9 and from nothing else: the year from bytes 3 and 4, the month from
  byte 5 with 13 replaced by 1 and every other month as it is, day, hours, minutes and
  seconds from bytes 6 to 9. With the time-offset flag set the payload holds that same
  timestamp and, beside it, the signed 16-bit offset of bytes 10 and 11; the offset
  does not enter the timestamp. A shorter buffer gives no record at all, and whatever
  record the parser returns has this timestamp and this payload.
\<close>

theorem parseGlucoseMeasurement_base_timestamp:
  "(required_length (buf ! 0) \<le> length buf \<longrightarrow>
      (\<exists>r. parseGlucoseMeasurement bt buf = Inr r
         \<and> timestamp r = bt \<lparr>year = word_cat (buf ! 4) (buf ! 3),
                              month = (if buf ! 5 = 13 then 1 else buf ! 5), day = buf ! 6,
                              hours = buf ! 7, minutes = buf ! 8, seconds = buf ! 9\<rparr>
         \<and> (hasFlag TIME_OFFSET_PRESENT (buf ! 0) \<longrightarrow>
              payload r = Some \<lparr>internalTime = timestamp r,
                 timeOffset = sint (word_cat (buf ! 11) (buf ! 10) :: 16 word)\<rparr>)
         \<and> (\<not> hasFlag TIME_OFFSET_PRESENT (buf ! 0) \<longrightarrow> payload r = None)))
   \<and> (length buf < required_length (buf ! 0) \<longrightarrow>
      (\<exists>e. parseGlucoseMeasurement bt buf = Inl e))
   \<and> (parseGlucoseMeasurement bt buf = Inr r' \<longrightarrow>
      timestamp r' = bt \<lparr>year = word_cat (buf ! 4) (buf ! 3),
                           month = (if buf ! 5 = 13 then 1 else buf ! 5), day = buf ! 6,
                           hours = buf ! 7, minutes = buf ! 8, seconds = buf ! 9\<rparr>
      \<and> (hasFlag TIME_OFFSET_PRESENT (buf ! 0) \<longrightarrow>
           payload r' = Some \<lparr>internalTime = timestamp r',
              timeOffset = sint (word_cat (buf ! 11) (buf ! 10) :: 16 word)\<rparr>)
      \<and> (\<not> hasFlag TIME_OFFSET_PRESENT (buf ! 0) \<longrightarrow> payload r' = None))"
proof (intro conjI impI)
  assume "required_length (buf ! 0) \<le> length buf"
  then obtain r where r: "parseGlucoseMeasurement bt buf = Inr r"
    using parse_total by blast
  show "\<exists>r. parseGlucoseMeasurement bt buf = Inr r
         \<and> timestamp r = bt \<lparr>year = word_cat (buf ! 4) (buf ! 3),
                              month = (if buf ! 5 = 13 then 1 else buf ! 5), day = buf ! 6,
                              hours = buf ! 7, minutes = buf ! 8, seconds = buf ! 9\<rparr>
         \<and> (hasFlag TIME_OFFSET_PRESENT (buf ! 0) \<longrightarrow>
              payload r = Some \<lparr>internalTime = timestamp r,
                 timeOffset = sint (word_cat (buf ! 11) (buf ! 10) :: 16 word)\<rparr>)
         \<and> (\<not> hasFlag TIME_OFFSET_PRESENT (buf ! 0) \<longrightarrow> payload r = None)"
    using r parseGlucoseMeasurement_timestamp [OF r] by (intro exI [of _ r]) simp
next
  assume "length buf < required_length (buf ! 0)"
  then show "\<exists>e. parseGlucoseMeasurement bt buf = Inl e"
    by (rule parse_too_short)
next
  assume r': "parseGlucoseMeasurement bt buf = Inr r'"
  show "timestamp r' = bt \<lparr>year = word_cat (buf ! 4) (buf ! 3),
                           month = (if buf ! 5 = 13 then 1 else buf ! 5), day = buf ! 6,
                           hours = buf ! 7, minutes = buf ! 8, seconds = buf ! 9\<rparr>"
    using parseGlucoseMeasurement_timestamp [OF r'] by simp
next
  assume r': "parseGlucoseMeasurement bt buf = Inr r'"
    and "hasFlag TIME_OFFSET_PRESENT (buf ! 0)"
  then show "payload r' = Some \<lparr>internalTime = timestamp r',
              timeOffset = sint (word_cat (buf ! 11) (buf ! 10) :: 16 word)\<rparr>"
    using parseGlucoseMeasurement_timestamp [OF r'] by simp
next
  assume r': "parseGlucoseMeasurement bt buf = Inr r'"
    and "\<not> hasFlag TIME_OFFSET_PRESENT (buf ! 0)"
  then show "payload r' = None"
    using parseGlucoseMeasurement_timestamp [OF r'] by simp
qed

theorem parseGlucoseMeasurement_base_timestamp_witness:
  "required_length 0x01 \<le> length [0x01, 1, 0, 0xE3, 0x07, 13, 2, 3, 4, 5, 0xFE, 0xFF :: byte]
   \<and> parseGlucoseMeasurement (\<lambda>d. d) [0x01, 1, 0, 0xE3, 0x07, 13, 2, 3, 4, 5, 0xFE, 0xFF]
     = Inr \<lparr>flags = 1, seqNum = 1,
         payload = Some \<lparr>internalTime = \<lparr>year = 2019, month = 1, day = 2, hours = 3,
                            minutes = 4, seconds = 5\<rparr>, timeOffset = - 2\<rparr>,
         timestamp = \<lparr>year = 2019, month = 1, day = 2, hours = 3, minutes = 4,
                       seconds = 5\<rparr>,
         units = None, value = None, type = None, location = None, status = None,
         hasContext = False\<rparr>
   \<and> timestamp \<lparr>flags = 1, seqNum = 1,
         payload = Some \<lparr>internalTime = \<lparr>year = 2019, month = 1, day = 2, hours = 3,
                            minutes = 4, seconds = 5\<rparr>, timeOffset = - 2\<rparr>,
         timestamp = \<lparr>year = 2019, month = 1, day = 2, hours = 3, minutes = 4,
                       seconds = (5 :: byte)\<rparr>,
         units = None, value = None, type = None, location = None, status = None,
         hasContext = False\<rparr>
       = \<lparr>year = 2019, month = 1, day = 2, hours = 3, minutes = 4, seconds = 5\<rparr>
   \<and> length [0x01, 1, 0, 0xE3, 0x07, 13, 2, 3, 4, 5, 0xFE :: byte] < required_length 0x01
   \<and> parseGlucoseMeasurement (\<lambda>d. d) [0x01, 1, 0, 0xE3, 0x07, 13, 2, 3, 4, 5, 0xFE]
       = Inl RangeError"
proof -
  have p: "parseGlucoseMeasurement (\<lambda>d. d) [0x01, 1, 0, 0xE3, 0x07, 13, 2, 3, 4, 5, 0xFE, 0xFF]
     = Inr \<lparr>flags = 1, seqNum = 1,
         payload = Some \<lparr>internalTime = \<lparr>year = 2019, month = 1, day = 2, hours = 3,
                            minutes = 4, seconds = 5\<rparr>, timeOffset = - 2\<rparr>,
         timestamp = \<lparr>year = 2019, month = 1, day = 2, hours = 3, minutes = 4,
                       seconds = 5\<rparr>,
         units = None, value = None, type = None, location = None, status = None,
         hasContext = False\<rparr>"
    by (simp add: parseGlucoseMeasurement_def dataview_defs flag_defs word_cat_eq Let_def)
  show ?thesis
    using p parseGlucoseMeasurement_base_timestamp
      [where buf = "[0x01, 1, 0, 0xE3, 0x07, 13, 2, 3, 4, 5, 0xFE, 0xFF]"
         and bt = "\<lambda>d. d"
         and r' = "\<lparr>flags = 1, seqNum = 1,
           payload = Some \<lparr>internalTime = \<lparr>year = 2019, month = 1, day = 2, hours = 3,
                              minutes = 4, seconds = 5\<rparr>, timeOffset = - 2\<rparr>,
           timestamp = \<lparr>year = 2019, month = 1, day = 2, hours = 3, minutes = 4,
                         seconds = 5\<rparr>,
           units = None, value = None, type = None, location = None, status = None,
           hasContext = False\<rparr>"]
      parseGlucoseMeasurement_base_timestamp
      [where buf = "[0x01, 1, 0, 0xE3, 0x07, 13, 2, 3, 4, 5, 0xFE]" and bt = "\<lambda>d. d"]
    by (simp add: word_cat_eq required_length_def flag_defs parseGlucoseMeasurement_def
          dataview_defs Let_def)
qed


section \<open>The context record and its cursor\<close>

lemma parseMeasurementContext_meal_position:
  assumes "parseMeasurementContext buf = Inr r"
    and "hasFlag CARBS (buf ! 0)" and "hasFlag MEAL (buf ! 0)"
  shows "\<exists>k. k = (if hasFlag EXTENDED (buf ! 0) then 4 else 3)
       \<and> carbID r = Some (buf ! k)
       \<and> carbUnits r = Some (word_cat (buf ! (k + 2)) (buf ! (k + 1)))
       \<and> meal r = Some (buf ! (k + 2))"
  using assms unfolding parseMeasurementContext_def dataview_defs Let_def
  by (auto split: if_splits sum.splits prod.splits simp: numeral_eq_Suc)

text \<open>
  Claim C6. The carbohydrate group is three bytes, the id and a 16-bit amount, but the
  cursor moves on by two. In the buffer \<open>03 01 00 07 34 12 05\<close> (carbs and meal
  flags, sequence number 1, carbohydrate id 7, amount \<open>0x1234\<close>, meal code 5) the meal
  is read as \<open>0x12\<close>, the high byte of the amount, and the meal byte 5 is not read.
\<close>

theorem parseMeasurementContext_meal_inside_amount:
  "parseMeasurementContext [0x03, 0x01, 0x00, 0x07, 0x34, 0x12, 0x05] =
     Inr \<lparr>flags = 0x03, seqNum = 1, extended = None, carbID = Some 0x07,
          carbUnits = Some 0x1234, meal = Some 0x12\<rparr>"
  by (simp add: parseMeasurementContext_def dataview_defs flag_defs word_cat_eq)

section \<open>Sample type and sample location\<close>

text \<open>
  Claim C7. The byte after the glucose value gives the sample type by a shift, its
  high nibble, but the location by a logical conjunction with \<open>0x0F\<close>, which is 15
  for every byte but 0. In the buffer below that byte is \<open>0x11\<close>: the type is 1 and
  the location 15, where the low nibble is 1.
\<close>

theorem parseGlucoseMeasurement_location_15:
  "parseGlucoseMeasurement bt [0x02, 0x01, 0x00, 0xE3, 0x07, 12, 2, 3, 4, 5, 0x0A, 0x00, 0x11]
     = Inr \<lparr>flags = 0x02, seqNum = 1, payload = None,
          timestamp = bt \<lparr>year = 2019, month = 12, day = 2, hours = 3, minutes = 4,
                           seconds = 5\<rparr>,
          units = Some ''mg/dL'', value = Some (Finite 10 5), type = Some 1,
          location = Some 15, status = None, hasContext = False\<rparr>
   \<and> (0x11 :: byte) AND 0x0F = 1"
  by (simp add: parseGlucoseMeasurement_def dataview_defs flag_defs getSFLOAT_def
        logical_and_def word_cat_eq Let_def)

section \<open>Commands and the record sequences\<close>

text \<open>
  Counting the records from sequence number 0 on, in a session that holds one
  measurement, leaves that measurement where it is.
\<close>

theorem getDeltaNumberOfRecords_keeps_records_counterexample:
  "records (fst (getDeltaNumberOfRecords True 0
      \<lparr>records = [\<lparr>flags = 0, seqNum = 1, payload = None, timestamp = (), units = None,
                    value = None, type = None, location = None, status = None,
                    hasContext = False\<rparr>],
       contextRecords = [], racp = []\<rparr>)) \<noteq> []"
  by (simp add: getDeltaNumberOfRecords_def sendCommand_def)

text \<open>
  Claim C10, as the code has it. The two commands that retrieve records,
  \<open>getAllRecords\<close> and \<open>getDeltaRecords\<close>, empty both sequences and then write
  their command, so both are empty whether or not the write is accepted. The two
  commands that count records, \<open>getNumberOfRecords\<close> and
  \<open>getDeltaNumberOfRecords\<close>, leave both sequences as they were.
\<close>

theorem retrieval_clears_count_keeps:
  "getAllRecords accepted self =
     sendCommand accepted [0x01, 0x01] (self\<lparr>records := [], contextRecords := []\<rparr>)
   \<and> getDeltaRecords accepted n self =
     sendCommand accepted ([0x01, 0x03, 0x01] @ setUint16 n)
       (self\<lparr>records := [], contextRecords := []\<rparr>)
   \<and> records (fst (getAllRecords accepted self)) = []
   \<and> contextRecords (fst (getAllRecords accepted self)) = []
   \<and> records (fst (getDeltaRecords accepted n self)) = []
   \<and> contextRecords (fst (getDeltaRecords accepted n self)) = []
   \<and> records (fst (getNumberOfRecords accepted self)) = records self
   \<and> contextRecords (fst (getNumberOfRecords accepted self)) = contextRecords self
   \<and> records (fst (getDeltaNumberOfRecords accepted n self)) = records self
   \<and> contextRecords (fst (getDeltaNumberOfRecords accepted n self)) = contextRecords self"
  by (simp add: getAllRecords_def getDeltaRecords_def getNumberOfRecords_def
        getDeltaNumberOfRecords_def sendCommand_keeps_records Let_def)

theorem retrieval_clears_count_keeps_witness:
  "getDeltaRecords True 0x0102
      \<lparr>records = [\<lparr>flags = 0, seqNum = 1, payload = None, timestamp = (), units = None,
                    value = None, type = None, location = None, status = None,
                    hasContext = False\<rparr>],
       contextRecords = [], racp = []\<rparr>
     = (\<lparr>records = [], contextRecords = [], racp = [[0x01, 0x03, 0x01, 0x02, 0x01]]\<rparr>, None)"
  using retrieval_clears_count_keeps [of True
      "\<lparr>records = [\<lparr>flags = 0, seqNum = 1, payload = None, timestamp = (), units = None,
                    value = None, type = None, location = None, status = None,
                    hasContext = False\<rparr>],
       contextRecords = [], racp = []\<rparr>" "0x0102"]
  by (simp add: sendCommand_def setUint16_def)


end
